theory Spec2Isabelle
  imports Main
begin

section \<open>Python values, exceptions and effects\<close>

text \<open>
  The two modules \<^verbatim>\<open>geopyspark/geotrellis/render.py\<close> and
  \<^verbatim>\<open>geopyspark/geotrellis/tms.py\<close> are thin Python layers over a JVM engine.
  Python objects are records, exceptions are values of a sum type, and every call that
  leaves Python (the raster engine, the JVM, the network) is a field of an environment
  record, so that its outcome is a parameter of the model.
\<close>

type_synonym bytes = string

text \<open>
  Exception classes. \<open>SystemExit\<close>, \<open>KeyboardInterrupt\<close>, \<open>GeneratorExit\<close> and
  \<open>UserBaseException\<close> (a user class deriving from \<open>BaseException\<close> directly) are
  the classes that are not subclasses of \<open>Exception\<close>.
\<close>

datatype exn_class =
    ValueError | IndexError | AttributeError | NameError | TypeError | RuntimeError
  | OSError | Py4JError | UserException string
  | SystemExit | KeyboardInterrupt | GeneratorExit | UserBaseException string

fun isinstance_Exception :: "exn_class \<Rightarrow> bool" where
  "isinstance_Exception SystemExit = False"
| "isinstance_Exception KeyboardInterrupt = False"
| "isinstance_Exception GeneratorExit = False"
| "isinstance_Exception (UserBaseException n) = False"
| "isinstance_Exception c = True"

record TiledRasterRDD =
  srdd :: nat
  zoom_level :: "int option"
  t_layer_metadata :: nat
  t_geopysc :: nat
  t_rdd_type :: string

text \<open>
  The Python values that reach \<^verbatim>\<open>TMS.build\<close> as \<open>source\<close> and that are passed to
  exception constructors. A \<open>PPyramid\<close> carries the items of its \<open>levels\<close> dictionary.
\<close>

datatype pyval =
    PNone
  | PInt int
  | PStr string
  | PTuple "pyval list"
  | PList "pyval list"
  | PPyramid "(int \<times> TiledRasterRDD) list"

datatype exn = Exn (cls: exn_class) (args: "pyval list")

text \<open>Truthiness of an optional integer, as \<^verbatim>\<open>if x:\<close> tests it: \<open>None\<close> and \<open>0\<close> are false.\<close>

fun truthy :: "int option \<Rightarrow> bool" where
  "truthy None = False"
| "truthy (Some n) = (n \<noteq> 0)"

text \<open>Python list indexing: a negative index counts from the end, out of range raises.\<close>

definition py_index :: "'a list \<Rightarrow> int \<Rightarrow> exn + 'a" where
  "py_index xs i =
     (let n = int (length xs); j = (if i < 0 then i + n else i)
      in if 0 \<le> j \<and> j < n then Inr (xs ! nat j)
         else Inl (Exn IndexError [PStr ''list index out of range'']))"

text \<open>
  Calls that leave Python are recorded in a trace, in the order they are made. A
  computation takes the trace so far and returns its outcome with the extended trace.
\<close>

datatype call =
    CallReproject TiledRasterRDD string string
  | CallPyramid TiledRasterRDD int int string
  | CallAsSingleband nat string
  | CallLookup nat int int

type_synonym 'a io = "call list \<Rightarrow> (exn + 'a) \<times> call list"

definition return_io :: "'a \<Rightarrow> 'a io" where
  "return_io x = (\<lambda>tr. (Inr x, tr))"

definition raise_io :: "exn \<Rightarrow> 'a io" where
  "raise_io e = (\<lambda>tr. (Inl e, tr))"

definition lift_io :: "exn + 'a \<Rightarrow> 'a io" where
  "lift_io r = (\<lambda>tr. (r, tr))"

definition extern :: "call \<Rightarrow> exn + 'a \<Rightarrow> 'a io" where
  "extern c r = (\<lambda>tr. (r, tr @ [c]))"

definition bind_io :: "'a io \<Rightarrow> ('a \<Rightarrow> 'b io) \<Rightarrow> 'b io" where
  "bind_io m f = (\<lambda>tr. case m tr of (Inl e, tr') \<Rightarrow> (Inl e, tr') | (Inr x, tr') \<Rightarrow> f x tr')"

section \<open>render.py\<close>

text \<open>
  The names imported from \<^verbatim>\<open>geopyspark.geotrellis.constants\<close>; the module is not
  part of the sources at hand, so its values are parameters.
\<close>

record constants =
  RESAMPLE_METHODS :: "string list"
  NEARESTNEIGHBOR :: string
  ZOOM :: string

text \<open>
  The raster engine: \<open>reproject\<close> and \<open>pyramid\<close> of a \<open>TiledRasterRDD\<close>, the JVM's
  \<open>PngRDD.asSingleband\<close> (from an \<open>srdd\<close> handle and a ramp name to the handle of a
  rendered level) and the \<open>lookup\<close> of a rendered level. \<open>metadata_of\<close> reads the
  \<open>layer_metadata\<close> attribute of a layer.
\<close>

record spatial_key =
  key_col :: int
  key_row :: int

record Bounds =
  minKey :: spatial_key
  maxKey :: spatial_key

record Metadata =
  bounds :: Bounds

record engine =
  reproject :: "TiledRasterRDD \<Rightarrow> string \<Rightarrow> string \<Rightarrow> exn + TiledRasterRDD"
  pyramid :: "TiledRasterRDD \<Rightarrow> int \<Rightarrow> int \<Rightarrow> string \<Rightarrow> exn + TiledRasterRDD list"
  metadata_of :: "nat \<Rightarrow> Metadata"
  asSingleband :: "nat \<Rightarrow> string \<Rightarrow> exn + nat"
  png_lookup :: "nat \<Rightarrow> int \<Rightarrow> int \<Rightarrow> exn + bytes list"

text \<open>The attributes \<^verbatim>\<open>PngRDD.__init__\<close> assigns.\<close>

record PngRDD =
  geopysc :: nat
  rdd_type :: string
  layer_metadata :: "Metadata list"
  max_zoom :: "int option"
  pngpyramid :: "nat list"
  debug :: bool

text \<open>
  The names bound at the top level of \<^verbatim>\<open>render.py\<close>: its three imports and its two
  classes. A bare name in a method body that is not a local is looked up here (and then
  in the builtins, which have no \<open>set_persist\<close>); methods of the enclosing class are not
  in scope.
\<close>

definition module_globals :: "string list" where
  "module_globals = [''RESAMPLE_METHODS'', ''NEARESTNEIGHBOR'', ''ZOOM'', ''ColorRamp'', ''PngRDD'']"

definition call_global :: "string \<Rightarrow> unit io" where
  "call_global name =
     (if name \<in> set module_globals then return_io ()
      else raise_io (Exn NameError [PStr (''name '' @ [CHR 0x27] @ name @ [CHR 0x27] @ '' is not defined'')]))"

text \<open>\<^verbatim>\<open>list(map(lambda layer: ...asSingleband(layer.srdd, ramp_name), pyramid))\<close>\<close>

fun asSingleband_all :: "engine \<Rightarrow> string \<Rightarrow> TiledRasterRDD list \<Rightarrow> nat list io" where
  "asSingleband_all eng ramp_name [] = return_io []"
| "asSingleband_all eng ramp_name (layer # rest) =
     bind_io (extern (CallAsSingleband (srdd layer) ramp_name) (asSingleband eng (srdd layer) ramp_name))
       (\<lambda>png. bind_io (asSingleband_all eng ramp_name rest) (\<lambda>pngs. return_io (png # pngs)))"

text \<open>Lines 39 to 45 of \<^verbatim>\<open>__init__\<close>: the attribute assignments.\<close>

definition init_attrs :: "engine \<Rightarrow> TiledRasterRDD list \<Rightarrow> string \<Rightarrow> bool \<Rightarrow> PngRDD io" where
  "init_attrs eng pyr ramp_name dbg =
     bind_io (lift_io (py_index pyr 0)) (\<lambda>level0.
     bind_io (asSingleband_all eng ramp_name pyr) (\<lambda>pngs.
       return_io \<lparr> geopysc = t_geopysc level0,
                   rdd_type = t_rdd_type level0,
                   layer_metadata = map (\<lambda>lev. metadata_of eng (t_layer_metadata lev)) pyr,
                   max_zoom = zoom_level level0,
                   pngpyramid = pngs,
                   debug = dbg \<rparr>))"

text \<open>
  \<^verbatim>\<open>cls(pyramid, ramp_name, persist_mode, debug)\<close>: the object is returned when
  \<^verbatim>\<open>__init__\<close> completes. Its last statement is the call of the bare name
  \<^verbatim>\<open>set_persist\<close>.
\<close>

definition PngRDD_init :: "engine \<Rightarrow> TiledRasterRDD list \<Rightarrow> string \<Rightarrow> string \<Rightarrow> bool \<Rightarrow> PngRDD io" where
  "PngRDD_init eng pyr ramp_name persist_mode dbg =
     bind_io (init_attrs eng pyr ramp_name dbg) (\<lambda>self.
     bind_io (call_global ''set_persist'') (\<lambda>u. return_io self))"

definition makePyramid ::
  "constants \<Rightarrow> engine \<Rightarrow> TiledRasterRDD \<Rightarrow> string \<Rightarrow> int option \<Rightarrow> int \<Rightarrow> string \<Rightarrow> string \<Rightarrow> bool
     \<Rightarrow> PngRDD io" where
  "makePyramid consts eng tiledrdd ramp_name start_zoom end_zoom resample_method persist_mode dbg =
     (if resample_method \<notin> set (RESAMPLE_METHODS consts)
      then raise_io (Exn ValueError [PStr resample_method, PStr '' Is not a known resample method.''])
      else
        bind_io (extern (CallReproject tiledrdd ''EPSG:3857'' (ZOOM consts))
                   (reproject eng tiledrdd ''EPSG:3857'' (ZOOM consts))) (\<lambda>reprojected.
        bind_io (lift_io
                   (case (if \<not> truthy start_zoom
                          then (if truthy (zoom_level reprojected) then zoom_level reprojected
                                else None)
                          else start_zoom) of
                      Some z \<Rightarrow> Inr z
                    | None \<Rightarrow>
                        Inl (Exn AttributeError
                          [PStr ''No initial zoom level is available; Please provide a value for start_zoom'']))) (\<lambda>start_zoom'.
        bind_io (extern (CallPyramid reprojected start_zoom' end_zoom resample_method)
                   (pyramid eng reprojected start_zoom' end_zoom resample_method)) (\<lambda>pyr.
          PngRDD_init eng pyr ramp_name persist_mode dbg))))"

text \<open>
  Lines 94 to 97 of \<^verbatim>\<open>lookup\<close>: the level index. Subtracting from a \<open>max_zoom\<close>
  that is \<open>None\<close> raises \<open>TypeError\<close>.
\<close>

definition level_index :: "PngRDD \<Rightarrow> int option \<Rightarrow> exn + int" where
  "level_index self zoom =
     (if \<not> truthy zoom then Inr 0
      else (case (max_zoom self, zoom) of
              (Some m, Some z) \<Rightarrow> Inr (m - z)
            | _ \<Rightarrow> Inl (Exn TypeError [PStr ''unsupported operand type(s) for -''])))"

definition lookup :: "engine \<Rightarrow> PngRDD \<Rightarrow> int \<Rightarrow> int \<Rightarrow> int option \<Rightarrow> bytes list io" where
  "lookup eng self col row zoom =
     bind_io (lift_io (level_index self zoom)) (\<lambda>idx.
     bind_io (lift_io (py_index (pngpyramid self) idx)) (\<lambda>pngrdd.
     bind_io (lift_io (py_index (layer_metadata self) idx)) (\<lambda>metadata.
       let bnds = bounds metadata;
           min_col = key_col (minKey bnds);
           min_row = key_row (minKey bnds);
           max_col = key_col (maxKey bnds);
           max_row = key_row (maxKey bnds)
       in if col < min_col \<or> col > max_col
          then raise_io (Exn IndexError [PStr ''column out of bounds''])
          else if row < min_row \<or> row > max_row
          then raise_io (Exn IndexError [PStr ''row out of bounds''])
          else extern (CallLookup pngrdd col row) (png_lookup eng pngrdd col row))))"

section \<open>tms.py\<close>

subsection \<open>Render and composite callbacks\<close>

type_synonym ndarray = "int list list list"

record Tile =
  cells :: ndarray

text \<open>
  What a user callback is called with: the cells of one tile (\<^verbatim>\<open>TileRender\<close>) or the
  list of the cells of every tile (\<^verbatim>\<open>TileCompositer\<close>).
\<close>

datatype cbarg = Cells ndarray | CellsList "ndarray list"

text \<open>
  The object a callback returns, by what \<^verbatim>\<open>image.save(bio, 'PNG')\<close> followed by
  \<^verbatim>\<open>bio.getvalue()\<close> does with it: the bytes written, or the exception raised (an
  object with no \<open>save\<close> method raises \<open>AttributeError\<close>).
\<close>

datatype pyimage = Image "exn + bytes"

fun save_png :: "pyimage \<Rightarrow> exn + bytes" where
  "save_png (Image r) = r"

type_synonym callback = "cbarg \<Rightarrow> exn + pyimage"

type_synonym decoder = "bytes \<Rightarrow> exn + Tile"

record TileRender =
  render_function :: callback

record TileCompositer =
  composite_function :: callback

definition bind_exn :: "exn + 'a \<Rightarrow> ('a \<Rightarrow> exn + 'b) \<Rightarrow> exn + 'b" where
  "bind_exn r f = (case r of Inl e \<Rightarrow> Inl e | Inr x \<Rightarrow> f x)"

text \<open>
  \<^verbatim>\<open>try: ... except Exception: print_exc()\<close>: an exception of a subclass of
  \<open>Exception\<close> is printed (appended to the error stream) and the method returns
  \<open>None\<close>; any other exception leaves the \<^verbatim>\<open>try\<close> statement as it came.
\<close>

definition except_Exception :: "exn + bytes \<Rightarrow> exn list \<Rightarrow> (exn + bytes option) \<times> exn list" where
  "except_Exception body stderr =
     (case body of
        Inr b \<Rightarrow> (Inr (Some b), stderr)
      | Inl e \<Rightarrow> if isinstance_Exception (cls e) then (Inr None, stderr @ [e])
                 else (Inl e, stderr))"

definition renderEncoded ::
  "decoder \<Rightarrow> TileRender \<Rightarrow> bytes \<Rightarrow> exn list \<Rightarrow> (exn + bytes option) \<times> exn list" where
  "renderEncoded multibandtile_decoder self scala_array stderr =
     except_Exception
       (bind_exn (multibandtile_decoder scala_array) (\<lambda>tile.
        bind_exn (render_function self (Cells (cells tile))) (\<lambda>image.
          save_png image)))
       stderr"

text \<open>\<^verbatim>\<open>[multibandtile_decoder(scala_array).cells for scala_array in all_scala_arrays]\<close>\<close>

fun decode_all :: "decoder \<Rightarrow> bytes list \<Rightarrow> exn + ndarray list" where
  "decode_all multibandtile_decoder [] = Inr []"
| "decode_all multibandtile_decoder (scala_array # rest) =
     bind_exn (multibandtile_decoder scala_array) (\<lambda>tile.
     bind_exn (decode_all multibandtile_decoder rest) (\<lambda>cs. Inr (cells tile # cs)))"

definition compositeEncoded ::
  "decoder \<Rightarrow> TileCompositer \<Rightarrow> bytes list \<Rightarrow> exn list \<Rightarrow> (exn + bytes option) \<times> exn list" where
  "compositeEncoded multibandtile_decoder self all_scala_arrays stderr =
     except_Exception
       (bind_exn (decode_all multibandtile_decoder all_scala_arrays) (\<lambda>cs.
        bind_exn (composite_function self (CellsList cs)) (\<lambda>image.
          save_png image)))
       stderr"

subsection \<open>The TMS server object\<close>

text \<open>
  Objects built on the JVM side are represented by the factory call that builds them;
  these calls, \<^verbatim>\<open>get_spark_context\<close> and the start of the callback server in
  \<^verbatim>\<open>TMS.__init__\<close> are taken to return.
\<close>

datatype reader =
    createSpatialRddReader "(int \<times> nat) list"
  | createCatalogReader string string

datatype renderer =
    RenderSinglebandFromCM nat
  | PyTileRender TileRender

datatype route =
    renderingTileRoute reader renderer
  | compositingTileRoute "reader list" TileCompositer

datatype jserver = createServer route

record TMS =
  server :: jserver
  handshake :: string
  bound :: bool
  host :: "string option"
  port :: "int option"

text \<open>
  What lies outside Python during \<^verbatim>\<open>bind\<close> and \<^verbatim>\<open>unbind\<close>: the JVM server's
  \<open>bind\<close>, \<open>port\<close> and \<open>unbind\<close>, the addresses
  \<^verbatim>\<open>socket.gethostbyname_ex(socket.gethostname())[2]\<close> and the address the UDP socket
  connected to 8.8.8.8 reports as its own.
\<close>

record net =
  server_bind :: "string \<Rightarrow> int option \<Rightarrow> exn + unit"
  server_port :: "exn + int"
  server_unbind :: "exn + unit"
  gethostbyname_ex :: "exn + string list"
  outbound_ip :: "exn + string"

definition TMS_init :: "jserver \<Rightarrow> TMS" where
  "TMS_init srv = \<lparr> server = srv, handshake = [], bound = False, host = None, port = None \<rparr>"

definition startswith :: "string \<Rightarrow> string \<Rightarrow> bool" where
  "startswith s p = (take (length p) s = p)"

text \<open>
  The expression assigned to \<^verbatim>\<open>self._host\<close>: both components of the tuple are
  evaluated, then the first element of the first non-empty one is taken.
\<close>

definition discover_host :: "net \<Rightarrow> exn + string" where
  "discover_host nw =
     bind_exn (gethostbyname_ex nw) (\<lambda>ips.
     bind_exn (outbound_ip nw) (\<lambda>own.
       bind_exn (py_index (filter (\<lambda>l. l \<noteq> [])
                   [take 1 (filter (\<lambda>ip. \<not> startswith ip ''127.'') ips), [own]]) 0) (\<lambda>l.
         py_index l 0)))"

text \<open>\<^verbatim>\<open>str\<close> of the values that reach \<^verbatim>\<open>format\<close>.\<close>

function str_nat :: "nat \<Rightarrow> string" where
  "str_nat n = (if n < 10 then [''0123456789'' ! n]
                else str_nat (n div 10) @ [''0123456789'' ! (n mod 10)])"
  by pat_completeness auto
termination
  by (relation "measure id") auto

declare str_nat.simps [simp del]

definition str_int :: "int \<Rightarrow> string" where
  "str_int i = (if i < 0 then ''-'' @ str_nat (nat (- i)) else str_nat (nat i))"

fun str_host :: "string option \<Rightarrow> string" where
  "str_host None = ''None''"
| "str_host (Some h) = h"

fun str_port :: "int option \<Rightarrow> string" where
  "str_port None = ''None''"
| "str_port (Some p) = str_int p"

fun host_val :: "string option \<Rightarrow> pyval" where
  "host_val None = PNone"
| "host_val (Some h) = PStr h"

text \<open>
  The body of the \<^verbatim>\<open>try\<close> statement of \<^verbatim>\<open>bind\<close>, with the object as it stands
  when the body ends or raises.
\<close>

definition bind_body :: "net \<Rightarrow> string \<Rightarrow> int option \<Rightarrow> TMS \<Rightarrow> (exn + unit) \<times> TMS" where
  "bind_body nw hst requested_port self =
     (case (if truthy requested_port then server_bind nw hst requested_port
            else server_bind nw hst None) of
        Inl e \<Rightarrow> (Inl e, self)
      | Inr u \<Rightarrow>
          (let self1 = self\<lparr> bound := True \<rparr> in
           case server_port nw of
             Inl e \<Rightarrow> (Inl e, self1)
           | Inr p \<Rightarrow>
               (let self2 = self1\<lparr> port := Some p \<rparr> in
                case discover_host nw of
                  Inl e \<Rightarrow> (Inl e, self2)
                | Inr h \<Rightarrow> (Inr (), self2\<lparr> host := Some h \<rparr>))))"

text \<open>
  The bare \<^verbatim>\<open>except:\<close> catches every exception and raises \<open>RuntimeError\<close>; the
  conditional expression binds weaker than \<open>+\<close>, so without a requested port the
  argument is \<^verbatim>\<open>self._host\<close> alone.
\<close>

definition bind :: "net \<Rightarrow> string \<Rightarrow> int option \<Rightarrow> TMS \<Rightarrow> (exn + unit) \<times> TMS" where
  "bind nw hst requested_port self =
     (case bind_body nw hst requested_port self of
        (Inr u, self') \<Rightarrow> (Inr u, self')
      | (Inl e, self') \<Rightarrow>
          (Inl (Exn RuntimeError
             [if truthy requested_port
              then PStr (''Error binding to '' @ str_host (host self') @ '' on port '' @ str_port (port self'))
              else host_val (host self')]),
           self'))"

definition unbind :: "net \<Rightarrow> TMS \<Rightarrow> (exn + unit) \<times> TMS" where
  "unbind nw self =
     (case server_unbind nw of
        Inl e \<Rightarrow> (Inl e, self)
      | Inr u \<Rightarrow> (Inr (), self\<lparr> port := None, host := None \<rparr>))"

definition url_pattern :: "TMS \<Rightarrow> exn + string" where
  "url_pattern self =
     (if \<not> bound self
      then Inl (Exn ValueError [PStr ''Cannot generate URL for unbound TMS server''])
      else Inr (''http://'' @ str_host (host self) @ '':'' @ str_port (port self)
                @ ''/tile/{z}/{x}/{y}.png''))"

subsection \<open>Building a server\<close>

datatype display = ColorMap nat | Callable callback | NotCallable

text \<open>
  \<^verbatim>\<open>makeReader\<close>: the conjunction is evaluated left to right, so \<^verbatim>\<open>arg[0]\<close> and
  \<^verbatim>\<open>arg[1]\<close> are read only when what precedes them holds, and reading past the end of
  a tuple raises \<open>IndexError\<close>.
\<close>

definition not_a_source :: exn where
  "not_a_source = Exn ValueError [PStr ''Arguments must be of type Pyramid or (string, string)'']"

definition tuple_range :: exn where
  "tuple_range = Exn IndexError [PStr ''tuple index out of range'']"

fun makeReader :: "pyval \<Rightarrow> exn + reader" where
  "makeReader (PPyramid levels) = Inr (createSpatialRddReader (map (\<lambda>(z, lvl). (z, srdd lvl)) levels))"
| "makeReader (PTuple []) = Inl tuple_range"
| "makeReader (PTuple [PStr a]) = Inl tuple_range"
| "makeReader (PTuple (PStr a # PStr b # rest)) = Inr (createCatalogReader a b)"
| "makeReader arg = Inl not_a_source"

text \<open>\<^verbatim>\<open>[makeReader(arg) for arg in source]\<close>\<close>

fun makeReader_all :: "pyval list \<Rightarrow> exn + reader list" where
  "makeReader_all [] = Inr []"
| "makeReader_all (arg # rest) =
     bind_exn (makeReader arg) (\<lambda>r. bind_exn (makeReader_all rest) (\<lambda>rs. Inr (r # rs)))"

fun isinstance_list :: "pyval \<Rightarrow> bool" where
  "isinstance_list (PList xs) = True"
| "isinstance_list v = False"

text \<open>Lines 240 and 241: a list of length one is replaced by its element.\<close>

fun unwrap_single :: "pyval \<Rightarrow> pyval" where
  "unwrap_single (PList [x]) = x"
| "unwrap_single v = v"

definition build_route :: "pyval \<Rightarrow> display \<Rightarrow> exn + route" where
  "build_route source disp =
     (case disp of
        ColorMap cmap \<Rightarrow>
          (if isinstance_list source
           then Inl (Exn ValueError [PStr ''May only apply color maps to a single input source''])
           else bind_exn (makeReader source) (\<lambda>rd.
                  Inr (renderingTileRoute rd (RenderSinglebandFromCM cmap))))
      | Callable f \<Rightarrow>
          (case source of
             PList sources \<Rightarrow>
               bind_exn (makeReader_all sources) (\<lambda>readers.
                 Inr (compositingTileRoute readers \<lparr> composite_function = f \<rparr>))
           | _ \<Rightarrow>
               bind_exn (makeReader source) (\<lambda>rd.
                 Inr (renderingTileRoute rd (PyTileRender \<lparr> render_function = f \<rparr>))))
      | NotCallable \<Rightarrow> Inl (Exn ValueError [PStr ''Display method must be callable or a ColorMap'']))"

definition build :: "pyval \<Rightarrow> display \<Rightarrow> exn + TMS" where
  "build source disp =
     bind_exn (build_route (unwrap_single source) disp) (\<lambda>rt.
       Inr (TMS_init (createServer rt)))"

section \<open>Concrete inputs\<close>

text \<open>
  A small engine: reprojection yields a layer at zoom 2, \<open>pyramid\<close> yields one level per
  zoom from the start zoom down to the end zoom, the level at zoom \<open>z\<close> has the handle
  \<open>z\<close> and the keys from \<open>(0, 0)\<close> to \<open>(2 ^ z - 1, 2 ^ z - 1)\<close>.
\<close>

definition level_at :: "int \<Rightarrow> TiledRasterRDD" where
  "level_at z = \<lparr> srdd = nat z, zoom_level = Some z, t_layer_metadata = nat z,
                  t_geopysc = 0, t_rdd_type = ''SPATIAL'' \<rparr>"

definition square_bounds :: "int \<Rightarrow> Metadata" where
  "square_bounds m = \<lparr> bounds = \<lparr> minKey = \<lparr> key_col = 0, key_row = 0 \<rparr>,
                                   maxKey = \<lparr> key_col = m, key_row = m \<rparr> \<rparr> \<rparr>"

definition ex_engine :: engine where
  "ex_engine = \<lparr> reproject = (\<lambda>t crs scheme. Inr (level_at 2)),
                 pyramid = (\<lambda>t s e m. Inr (map level_at (rev [e..s]))),
                 metadata_of = (\<lambda>h. square_bounds (2 ^ h - 1)),
                 asSingleband = (\<lambda>h ramp. Inr h),
                 png_lookup = (\<lambda>h c r. Inr [''tile'']) \<rparr>"

definition ex_consts :: constants where
  "ex_consts = \<lparr> RESAMPLE_METHODS = [''NearestNeighbor'', ''Bilinear''],
                 NEARESTNEIGHBOR = ''NearestNeighbor'', ZOOM = ''zoom'' \<rparr>"

text \<open>The attributes \<^verbatim>\<open>__init__\<close> assigns for the levels at zooms 2, 1 and 0.\<close>

definition ex_png :: PngRDD where
  "ex_png = \<lparr> geopysc = 0, rdd_type = ''SPATIAL'',
              layer_metadata = [square_bounds 3, square_bounds 1, square_bounds 0],
              max_zoom = Some 2, pngpyramid = [2, 1, 0], debug = False \<rparr>"

text \<open>
  A tile source, as the docstring of \<^verbatim>\<open>build\<close> has it: a \<open>Pyramid\<close> or a
  \<open>(string, string)\<close> pair of a catalog URI and a layer name.
\<close>

fun tile_source :: "pyval \<Rightarrow> bool" where
  "tile_source (PPyramid levels) = True"
| "tile_source (PTuple [PStr a, PStr b]) = True"
| "tile_source v = False"

definition ex_catalog :: pyval where
  "ex_catalog = PTuple [PStr ''s3://bucket/catalog'', PStr ''layer'']"

definition ex_pyramid :: pyval where
  "ex_pyramid = PPyramid [(1, \<lparr> srdd = 1, zoom_level = Some 1, t_layer_metadata = 1,
                                t_geopysc = 0, t_rdd_type = ''SPATIAL'' \<rparr>)]"

text \<open>
  A decoder that rejects the empty array, a callback that raises a user exception, a
  callback that ends the interpreter (\<^verbatim>\<open>sys.exit()\<close>) and a callback that raises
  an exception of a user class deriving from \<open>BaseException\<close> only.
\<close>

definition ex_tile :: Tile where
  "ex_tile = \<lparr> cells = [[[1, 2], [3, 4]]] \<rparr>"

definition ex_decoder :: decoder where
  "ex_decoder scala_array =
     (if scala_array = [] then Inl (Exn ValueError [PStr ''empty tile'']) else Inr ex_tile)"

definition failing_callback :: callback where
  "failing_callback a = Inl (Exn (UserException ''RenderFailed'') [])"

definition exit_callback :: callback where
  "exit_callback a = Inl (Exn SystemExit [])"

definition abort_callback :: callback where
  "abort_callback a = Inl (Exn (UserBaseException ''Abort'') [])"

text \<open>
  A network on which the JVM server binds and reports port 8080 and the host resolves;
  and the same network with a host name that does not resolve.
\<close>

definition ex_server :: jserver where
  "ex_server = createServer (renderingTileRoute (createCatalogReader ''s3://bucket/catalog'' ''layer'')
                 (RenderSinglebandFromCM 0))"

definition ex_net :: net where
  "ex_net = \<lparr> server_bind = (\<lambda>h p. Inr ()), server_port = Inr 8080, server_unbind = Inr (),
              gethostbyname_ex = Inr [''127.0.0.1'', ''10.0.0.5''], outbound_ip = Inr ''10.0.0.5'' \<rparr>"

definition ex_net_unresolved :: net where
  "ex_net_unresolved =
     ex_net \<lparr> gethostbyname_ex := Inl (Exn OSError [PStr ''Name or service not known'']) \<rparr>"

section \<open>Properties of render.py\<close>

lemmas io_defs = return_io_def raise_io_def lift_io_def extern_def bind_io_def

lemma init_attrs_ex_png:
  "init_attrs ex_engine [level_at 2, level_at 1, level_at 0] ''hot'' False [] =
     (Inr ex_png, [CallAsSingleband 2 ''hot'', CallAsSingleband 1 ''hot'', CallAsSingleband 0 ''hot''])"
  by (simp add: init_attrs_def io_defs py_index_def ex_engine_def level_at_def ex_png_def)

text \<open>
  C1. A pyramid with levels at zooms 2, 1 and 0: \<open>lookup\<close> with a zoom selects the level
  at index \<open>max_zoom - zoom\<close> and raises \<open>IndexError\<close> for a zoom outside 0..2. The
  code does not: zoom 3 gives index \<open>-1\<close>, which Python reads from the end of the list,
  so the level at zoom 0 (handle 0) is queried and its tiles are returned; and zoom 0 is
  taken for an omitted zoom, so the level at zoom 2 (handle 2, index 0) is queried
  instead of the level at index 2.
\<close>

theorem lookup_zoom_outside_range:
  "lookup ex_engine ex_png 0 0 (Some 3) [] = (Inr [''tile''], [CallLookup 0 0 0])
   \<and> lookup ex_engine ex_png 0 0 (Some 0) [] = (Inr [''tile''], [CallLookup 2 0 0])"
  by (simp add: lookup_def level_index_def io_defs py_index_def ex_engine_def ex_png_def square_bounds_def)

lemma call_global_set_persist:
  "call_global ''set_persist'' tr = (Inl (Exn NameError [PStr ''name 'set_persist' is not defined'']), tr)"
  by (simp add: call_global_def module_globals_def raise_io_def)

lemma PngRDD_init_never_returns: "fst (PngRDD_init eng pyr ramp_name persist_mode dbg tr) \<noteq> Inr obj"
  by (auto simp: PngRDD_init_def bind_io_def call_global_set_persist split: prod.splits sum.splits)

lemma makePyramid_never_returns:
  "fst (makePyramid consts eng tiledrdd ramp_name start_zoom end_zoom resample_method persist_mode dbg tr) \<noteq> Inr obj"
  using PngRDD_init_never_returns
  by (auto simp: makePyramid_def bind_io_def raise_io_def lift_io_def extern_def split: prod.splits sum.splits)

text \<open>
  C2. With a recognized resampling method and a start zoom, \<open>makePyramid\<close> returns a
  \<open>PngRDD\<close> whose levels run from the start zoom down to the end zoom. The code does
  not return: after the engine has produced the levels at zooms 2, 1 and 0 and every
  level has been rendered, \<^verbatim>\<open>__init__\<close> calls the bare name \<open>set_persist\<close>, which is
  bound nowhere, and the call ends in \<open>NameError\<close>.
\<close>

theorem makePyramid_raises_NameError:
  "makePyramid ex_consts ex_engine (level_at 7) ''hot'' (Some 2) 0 ''NearestNeighbor'' ''NONE'' False [] =
     (Inl (Exn NameError [PStr ''name 'set_persist' is not defined'']),
      [CallReproject (level_at 7) ''EPSG:3857'' ''zoom'',
       CallPyramid (level_at 2) 2 0 ''NearestNeighbor'',
       CallAsSingleband 2 ''hot'', CallAsSingleband 1 ''hot'', CallAsSingleband 0 ''hot''])"
  by (simp add: makePyramid_def PngRDD_init_def call_global_def module_globals_def init_attrs_def
      io_defs py_index_def ex_engine_def ex_consts_def level_at_def upto.simps)

lemma lookup_at_level:
  assumes "level_index self zoom = Inr idx"
      and "py_index (pngpyramid self) idx = Inr pngrdd"
      and "py_index (layer_metadata self) idx = Inr md"
  shows "lookup eng self col row zoom tr =
     (if col < key_col (minKey (bounds md)) \<or> col > key_col (maxKey (bounds md))
      then (Inl (Exn IndexError [PStr ''column out of bounds'']), tr)
      else if row < key_row (minKey (bounds md)) \<or> row > key_row (maxKey (bounds md))
      then (Inl (Exn IndexError [PStr ''row out of bounds'']), tr)
      else (png_lookup eng pngrdd col row, tr @ [CallLookup pngrdd col row]))"
  using assms by (simp add: lookup_def io_defs Let_def)

text \<open>
  C3. Let the zoom select the level \<open>pngrdd\<close> with metadata \<open>md\<close>. For a key inside the
  bounds of \<open>md\<close>, \<open>lookup\<close> queries that level once and returns what it answers, the
  list of payloads as the source gave it. For a column outside the bounds it raises the
  column error, for a column inside and a row outside the row error, and in both cases
  the trace is unchanged: the source was not queried.
\<close>

theorem lookup_bounds:
  assumes "level_index self zoom = Inr idx"
      and "py_index (pngpyramid self) idx = Inr pngrdd"
      and "py_index (layer_metadata self) idx = Inr md"
  shows "(key_col (minKey (bounds md)) \<le> col \<and> col \<le> key_col (maxKey (bounds md)) \<and>
          key_row (minKey (bounds md)) \<le> row \<and> row \<le> key_row (maxKey (bounds md)) \<longrightarrow>
            lookup eng self col row zoom tr =
              (png_lookup eng pngrdd col row, tr @ [CallLookup pngrdd col row]))
       \<and> (col < key_col (minKey (bounds md)) \<or> col > key_col (maxKey (bounds md)) \<longrightarrow>
            lookup eng self col row zoom tr =
              (Inl (Exn IndexError [PStr ''column out of bounds'']), tr))
       \<and> (key_col (minKey (bounds md)) \<le> col \<and> col \<le> key_col (maxKey (bounds md)) \<and>
          (row < key_row (minKey (bounds md)) \<or> row > key_row (maxKey (bounds md))) \<longrightarrow>
            lookup eng self col row zoom tr =
              (Inl (Exn IndexError [PStr ''row out of bounds'']), tr))"
proof -
  note eq = lookup_at_level [OF assms, of eng col row tr]
  have in_bounds: "key_col (minKey (bounds md)) \<le> col \<and> col \<le> key_col (maxKey (bounds md)) \<and>
          key_row (minKey (bounds md)) \<le> row \<and> row \<le> key_row (maxKey (bounds md)) \<longrightarrow>
            lookup eng self col row zoom tr =
              (png_lookup eng pngrdd col row, tr @ [CallLookup pngrdd col row])"
    unfolding eq by auto
  have col_out: "col < key_col (minKey (bounds md)) \<or> col > key_col (maxKey (bounds md)) \<longrightarrow>
            lookup eng self col row zoom tr =
              (Inl (Exn IndexError [PStr ''column out of bounds'']), tr)"
    unfolding eq by simp
  have row_out: "key_col (minKey (bounds md)) \<le> col \<and> col \<le> key_col (maxKey (bounds md)) \<and>
          (row < key_row (minKey (bounds md)) \<or> row > key_row (maxKey (bounds md))) \<longrightarrow>
            lookup eng self col row zoom tr =
              (Inl (Exn IndexError [PStr ''row out of bounds'']), tr)"
    unfolding eq by auto
  from in_bounds col_out row_out show ?thesis by blast
qed

theorem lookup_bounds_witness:
  "lookup ex_engine ex_png 2 2 (Some 2) [] = (Inr [''tile''], [CallLookup 2 2 2])
   \<and> lookup ex_engine ex_png 4 0 (Some 2) [] = (Inl (Exn IndexError [PStr ''column out of bounds'']), [])
   \<and> lookup ex_engine ex_png 3 (- 1) (Some 2) [] = (Inl (Exn IndexError [PStr ''row out of bounds'']), [])"
proof -
  have idx: "level_index ex_png (Some 2) = Inr 0"
    by (simp add: level_index_def ex_png_def)
  have lev: "py_index (pngpyramid ex_png) 0 = Inr 2"
    by (simp add: py_index_def ex_png_def)
  have md: "py_index (layer_metadata ex_png) 0 = Inr (square_bounds 3)"
    by (simp add: py_index_def ex_png_def)
  have src: "png_lookup ex_engine 2 2 2 = Inr [''tile'']"
    by (simp add: ex_engine_def)
  from lookup_bounds [OF idx lev md, of 2 2 ex_engine "[]"]
       lookup_bounds [OF idx lev md, of 4 0 ex_engine "[]"]
       lookup_bounds [OF idx lev md, of 3 "- 1" ex_engine "[]"] src
  show ?thesis by (simp add: square_bounds_def)
qed

text \<open>
  C8. A resampling method outside \<open>RESAMPLE_METHODS\<close> makes \<open>makePyramid\<close> raise
  \<open>ValueError\<close> with the trace as it was: neither \<open>reproject\<close> nor \<open>pyramid\<close> nor the
  rendering of a level has been called.
\<close>

theorem makePyramid_unknown_method:
  assumes "resample_method \<notin> set (RESAMPLE_METHODS consts)"
  shows "makePyramid consts eng tiledrdd ramp_name start_zoom end_zoom resample_method persist_mode dbg tr =
           (Inl (Exn ValueError [PStr resample_method, PStr '' Is not a known resample method.'']), tr)"
  using assms by (simp add: makePyramid_def raise_io_def)

theorem makePyramid_unknown_method_witness:
  "makePyramid ex_consts ex_engine (level_at 7) ''hot'' (Some 2) 0 ''Cubic'' ''NONE'' False [] =
     (Inl (Exn ValueError [PStr ''Cubic'', PStr '' Is not a known resample method.'']), [])"
proof -
  have "''Cubic'' \<notin> set (RESAMPLE_METHODS ex_consts)"
    by (simp add: ex_consts_def)
  then show ?thesis by (rule makePyramid_unknown_method)
qed

text \<open>
  C9. An explicitly supplied start zoom, 0 included, is the top level of the pyramid.
  The code does not use a supplied 0: \<^verbatim>\<open>if not start_zoom\<close> takes it for an omitted
  argument, and the engine is asked for a pyramid from the reprojected layer's zoom 2.
\<close>

theorem makePyramid_start_zoom_zero:
  "snd (makePyramid ex_consts ex_engine (level_at 7) ''hot'' (Some 0) 0 ''NearestNeighbor'' ''NONE'' False []) =
     [CallReproject (level_at 7) ''EPSG:3857'' ''zoom'',
      CallPyramid (level_at 2) 2 0 ''NearestNeighbor'',
      CallAsSingleband 2 ''hot'', CallAsSingleband 1 ''hot'', CallAsSingleband 0 ''hot'']"
  by (simp add: makePyramid_def PngRDD_init_def call_global_def module_globals_def init_attrs_def
      io_defs py_index_def ex_engine_def ex_consts_def level_at_def upto.simps)

section \<open>Properties of tms.py\<close>

subsection \<open>The server's life cycle\<close>

lemma str_int_8080: "str_int 8080 = ''8080''"
  by (simp add: str_int_def str_nat.simps [of 8080] str_nat.simps [of 808]
      str_nat.simps [of 80] str_nat.simps [of 8])

lemma ex_net_simps:
  "server_bind ex_net h p = Inr ()" "server_port ex_net = Inr 8080" "server_unbind ex_net = Inr ()"
  by (simp_all add: ex_net_def)

lemma ex_net_unresolved_simps:
  "server_bind ex_net_unresolved h p = Inr ()" "server_port ex_net_unresolved = Inr 8080"
  "gethostbyname_ex ex_net_unresolved = Inl (Exn OSError [PStr ''Name or service not known''])"
  by (simp_all add: ex_net_unresolved_def ex_net_def)

lemma discover_host_ex_net: "discover_host ex_net = Inr ''10.0.0.5''"
  by (simp add: discover_host_def ex_net_def bind_exn_def py_index_def startswith_def)

lemma bind_ex_net:
  "bind ex_net ''0.0.0.0'' None (TMS_init ex_server) =
     (Inr (), \<lparr> server = ex_server, handshake = [], bound = True,
                host = Some ''10.0.0.5'', port = Some 8080 \<rparr>)"
  by (simp add: bind_def bind_body_def discover_host_ex_net TMS_init_def Let_def ex_net_simps)

lemma unbind_after_bind:
  "unbind ex_net \<lparr> server = ex_server, handshake = [], bound = True,
                     host = Some ''10.0.0.5'', port = Some 8080 \<rparr> =
     (Inr (), \<lparr> server = ex_server, handshake = [], bound = True, host = None, port = None \<rparr>)"
  by (simp add: unbind_def ex_net_simps)

lemma TMS_init_unbound: "\<not> bound (TMS_init srv)"
  by (simp add: TMS_init_def)

lemma url_pattern_raises_iff: "(\<exists>e. url_pattern self = Inl e) = (\<not> bound self)"
  by (simp add: url_pattern_def)

lemma unbind_keeps_bound: "bound (snd (unbind nw self)) = bound self"
  by (simp add: unbind_def split: sum.splits)

lemma bind_raises_RuntimeError: "fst (bind nw hst requested_port self) = Inl e \<Longrightarrow> cls e = RuntimeError"
  by (auto simp: bind_def split: prod.splits sum.splits)

text \<open>
  C4. \<open>url_pattern\<close> raises exactly when the server is unbound, initially and again
  after \<open>unbind\<close>, and returns the pattern with the tokens while bound. The code raises
  on the new server and returns the pattern after \<open>bind\<close>; but \<open>unbind\<close> clears only
  host and port and leaves \<open>bound\<close> set, so after a successful \<open>unbind\<close>
  \<open>url_pattern\<close> does not raise and returns a pattern for host \<open>None\<close>, port \<open>None\<close>.
\<close>

theorem url_pattern_after_unbind:
  "url_pattern (TMS_init ex_server) =
     Inl (Exn ValueError [PStr ''Cannot generate URL for unbound TMS server''])
   \<and> url_pattern (snd (bind ex_net ''0.0.0.0'' None (TMS_init ex_server))) =
       Inr ''http://10.0.0.5:8080/tile/{z}/{x}/{y}.png''
   \<and> fst (unbind ex_net (snd (bind ex_net ''0.0.0.0'' None (TMS_init ex_server)))) = Inr ()
   \<and> url_pattern (snd (unbind ex_net (snd (bind ex_net ''0.0.0.0'' None (TMS_init ex_server))))) =
       Inr ''http://None:None/tile/{z}/{x}/{y}.png''"
  by (simp add: unbind_after_bind bind_ex_net url_pattern_def TMS_init_unbound str_int_8080)

text \<open>
  C5. When \<open>bind\<close> fails it raises the binding error and leaves the server unbound:
  \<open>bound\<close> false, host and port \<open>None\<close>. The code raises \<open>RuntimeError\<close>, but when the
  JVM server has bound and the host name then fails to resolve, the object is left with
  \<open>bound\<close> set and the port recorded.
\<close>

theorem bind_failure_leaves_bound:
  "bind ex_net_unresolved ''0.0.0.0'' (Some 8080) (TMS_init ex_server) =
     (Inl (Exn RuntimeError [PStr ''Error binding to None on port 8080'']),
      \<lparr> server = ex_server, handshake = [], bound = True, host = None, port = Some 8080 \<rparr>)"
  by (simp add: bind_def bind_body_def discover_host_def bind_exn_def TMS_init_def
      ex_net_unresolved_simps str_int_8080 Let_def)

subsection \<open>Building a server\<close>

lemma tile_source_cases:
  assumes "tile_source s"
  obtains levels where "s = PPyramid levels" | a b where "s = PTuple [PStr a, PStr b]"
  using assms by (induction s rule: tile_source.induct) auto

lemma tile_source_reader: "tile_source s \<Longrightarrow> \<exists>rd. makeReader s = Inr rd"
  by (erule tile_source_cases) auto

lemma tile_source_unwrap: "tile_source s \<Longrightarrow> unwrap_single s = s \<and> \<not> isinstance_list s"
  by (erule tile_source_cases) auto

lemma build_colormap_single:
  assumes "tile_source s" and "makeReader s = Inr rd"
  shows "build s (ColorMap cmap) =
           Inr (TMS_init (createServer (renderingTileRoute rd (RenderSinglebandFromCM cmap))))"
  using assms tile_source_unwrap [of s] by (simp add: build_def build_route_def bind_exn_def)

lemma unwrap_single_many: "1 < length sources \<Longrightarrow> unwrap_single (PList sources) = PList sources"
  by (cases sources rule: list.exhaust; cases "tl sources") auto

text \<open>
  C6. With a \<open>ColorMap\<close> as display, \<open>build\<close> raises \<open>ValueError\<close> for a list of more
  than one source, and for one tile source it builds the server of the rendering route
  over that source's reader and the colour map.
\<close>

theorem build_colormap:
  "(1 < length sources \<longrightarrow>
      build (PList sources) (ColorMap cmap) =
        Inl (Exn ValueError [PStr ''May only apply color maps to a single input source'']))
   \<and> (tile_source s \<longrightarrow>
        (\<exists>rd. makeReader s = Inr rd \<and>
              build s (ColorMap cmap) =
                Inr (TMS_init (createServer (renderingTileRoute rd (RenderSinglebandFromCM cmap))))))"
proof (intro conjI impI)
  assume "1 < length sources"
  then show "build (PList sources) (ColorMap cmap) =
        Inl (Exn ValueError [PStr ''May only apply color maps to a single input source''])"
    by (simp add: build_def build_route_def bind_exn_def unwrap_single_many)
next
  assume s: "tile_source s"
  then obtain rd where "makeReader s = Inr rd"
    using tile_source_reader by blast
  with s show "\<exists>rd. makeReader s = Inr rd \<and>
      build s (ColorMap cmap) =
        Inr (TMS_init (createServer (renderingTileRoute rd (RenderSinglebandFromCM cmap))))"
    using build_colormap_single by blast
qed

theorem build_colormap_witness:
  "build (PList [ex_catalog, ex_pyramid]) (ColorMap 0) =
     Inl (Exn ValueError [PStr ''May only apply color maps to a single input source''])
   \<and> build ex_catalog (ColorMap 0) =
       Inr (TMS_init (createServer (renderingTileRoute
              (createCatalogReader ''s3://bucket/catalog'' ''layer'') (RenderSinglebandFromCM 0))))"
proof -
  have many: "1 < length [ex_catalog, ex_pyramid]" by simp
  have src: "tile_source ex_catalog" by (simp add: ex_catalog_def)
  have rd: "makeReader ex_catalog = Inr (createCatalogReader ''s3://bucket/catalog'' ''layer'')"
    by (simp add: ex_catalog_def)
  from build_colormap [of "[ex_catalog, ex_pyramid]" 0 ex_catalog] many src rd
  show ?thesis by auto
qed

text \<open>
  C10. For a tile source \<open>s\<close> and any display, \<open>build\<close> of the list \<open>[s]\<close> is \<open>build\<close>
  of \<open>s\<close>; with a \<open>ColorMap\<close> the list \<open>[s]\<close> is accepted and gives the server of the
  single-source rendering route.
\<close>

theorem build_singleton_list:
  assumes "tile_source s"
  shows "build (PList [s]) disp = build s disp
       \<and> (\<exists>rd. makeReader s = Inr rd \<and>
              build (PList [s]) (ColorMap cmap) =
                Inr (TMS_init (createServer (renderingTileRoute rd (RenderSinglebandFromCM cmap)))))"
proof -
  have eq: "build (PList [s]) d = build s d" for d
    using tile_source_unwrap [OF assms] by (simp add: build_def)
  obtain rd where rd: "makeReader s = Inr rd"
    using tile_source_reader [OF assms] by blast
  from build_colormap_single [OF assms rd, of cmap] eq [of disp] eq [of "ColorMap cmap"] rd
  show ?thesis by auto
qed

theorem build_singleton_list_witness:
  "build (PList [ex_pyramid]) (Callable failing_callback) = build ex_pyramid (Callable failing_callback)
   \<and> build (PList [ex_pyramid]) (ColorMap 0) =
       Inr (TMS_init (createServer (renderingTileRoute
              (createSpatialRddReader [(1, 1)]) (RenderSinglebandFromCM 0))))"
proof -
  have src: "tile_source ex_pyramid" by (simp add: ex_pyramid_def)
  have rd: "makeReader ex_pyramid = Inr (createSpatialRddReader [(1, 1)])"
    by (simp add: ex_pyramid_def)
  from build_singleton_list [OF src, of "Callable failing_callback" 0] rd
  show ?thesis by auto
qed

subsection \<open>Render and composite callbacks\<close>

lemma except_Exception_caught:
  "isinstance_Exception (cls e) \<Longrightarrow> except_Exception (Inl e) stderr = (Inr None, stderr @ [e])"
  by (simp add: except_Exception_def)

lemma except_Exception_propagates:
  "fst (except_Exception body stderr) = Inl e \<Longrightarrow> \<not> isinstance_Exception (cls e)"
  by (auto simp: except_Exception_def split: sum.splits if_splits)

lemma except_Exception_not_caught:
  "\<not> isinstance_Exception (cls e) \<Longrightarrow> except_Exception (Inl e) stderr = (Inl e, stderr)"
  by (simp add: except_Exception_def)

lemma except_Exception_result: "fst (except_Exception body stderr') = fst (except_Exception body stderr)"
  by (simp add: except_Exception_def split: sum.splits)

lemma renderEncoded_result:
  "fst (renderEncoded multibandtile_decoder r scala_array stderr') =
   fst (renderEncoded multibandtile_decoder r scala_array stderr)"
  unfolding renderEncoded_def by (rule except_Exception_result)

lemma compositeEncoded_result:
  "fst (compositeEncoded multibandtile_decoder c all_scala_arrays stderr') =
   fst (compositeEncoded multibandtile_decoder c all_scala_arrays stderr)"
  unfolding compositeEncoded_def by (rule except_Exception_result)

text \<open>
  C7, as the code has it. Let \<open>e\<close> be raised by the decoder, or by the callback on the
  decoded tiles, inside \<open>renderEncoded\<close> or \<open>compositeEncoded\<close>. If \<open>e\<close> is an instance
  of \<open>Exception\<close>, it is caught and printed to the error stream, the method returns
  \<open>None\<close> (no image), and the method never ends by raising \<open>e\<close>. If \<open>e\<close> is not an
  instance of \<open>Exception\<close>, it is not caught: the method ends by raising \<open>e\<close> and
  nothing is printed. In either case the server and other requests are unaffected by
  the call: the error stream is all it changes, and what any other request \<open>other\<close>
  (\<open>others\<close>) is answered afterwards is what it is answered without the call.
\<close>

theorem callback_exceptions_caught:
  "(isinstance_Exception (cls e) \<longrightarrow>
      (multibandtile_decoder scala_array = Inl e \<or>
       (\<exists>tile. multibandtile_decoder scala_array = Inr tile \<and>
               render_function r (Cells (cells tile)) = Inl e) \<longrightarrow>
         renderEncoded multibandtile_decoder r scala_array stderr = (Inr None, stderr @ [e]))
    \<and> (decode_all multibandtile_decoder all_scala_arrays = Inl e \<or>
       (\<exists>cs. decode_all multibandtile_decoder all_scala_arrays = Inr cs \<and>
             composite_function c (CellsList cs) = Inl e) \<longrightarrow>
         compositeEncoded multibandtile_decoder c all_scala_arrays stderr = (Inr None, stderr @ [e]))
    \<and> fst (renderEncoded multibandtile_decoder r scala_array stderr) \<noteq> Inl e
    \<and> fst (compositeEncoded multibandtile_decoder c all_scala_arrays stderr) \<noteq> Inl e)
   \<and> (\<not> isinstance_Exception (cls e) \<longrightarrow>
      (multibandtile_decoder scala_array = Inl e \<or>
       (\<exists>tile. multibandtile_decoder scala_array = Inr tile \<and>
               render_function r (Cells (cells tile)) = Inl e) \<longrightarrow>
         renderEncoded multibandtile_decoder r scala_array stderr = (Inl e, stderr))
    \<and> (decode_all multibandtile_decoder all_scala_arrays = Inl e \<or>
       (\<exists>cs. decode_all multibandtile_decoder all_scala_arrays = Inr cs \<and>
             composite_function c (CellsList cs) = Inl e) \<longrightarrow>
         compositeEncoded multibandtile_decoder c all_scala_arrays stderr = (Inl e, stderr)))
   \<and> fst (renderEncoded multibandtile_decoder r other
            (snd (renderEncoded multibandtile_decoder r scala_array stderr))) =
       fst (renderEncoded multibandtile_decoder r other stderr)
   \<and> fst (compositeEncoded multibandtile_decoder c others
            (snd (compositeEncoded multibandtile_decoder c all_scala_arrays stderr))) =
       fst (compositeEncoded multibandtile_decoder c others stderr)"
proof -
  let ?render_raises = "multibandtile_decoder scala_array = Inl e \<or>
       (\<exists>tile. multibandtile_decoder scala_array = Inr tile \<and>
               render_function r (Cells (cells tile)) = Inl e)"
  let ?composite_raises = "decode_all multibandtile_decoder all_scala_arrays = Inl e \<or>
       (\<exists>cs. decode_all multibandtile_decoder all_scala_arrays = Inr cs \<and>
             composite_function c (CellsList cs) = Inl e)"
  have render_body: "renderEncoded multibandtile_decoder r scala_array stderr =
      except_Exception (Inl e) stderr" if ?render_raises
    using that by (auto simp: renderEncoded_def bind_exn_def)
  have composite_body: "compositeEncoded multibandtile_decoder c all_scala_arrays stderr =
      except_Exception (Inl e) stderr" if ?composite_raises
    using that by (auto simp: compositeEncoded_def bind_exn_def)
  have caught: "isinstance_Exception (cls e) \<longrightarrow>
      (?render_raises \<longrightarrow>
         renderEncoded multibandtile_decoder r scala_array stderr = (Inr None, stderr @ [e]))
    \<and> (?composite_raises \<longrightarrow>
         compositeEncoded multibandtile_decoder c all_scala_arrays stderr = (Inr None, stderr @ [e]))
    \<and> fst (renderEncoded multibandtile_decoder r scala_array stderr) \<noteq> Inl e
    \<and> fst (compositeEncoded multibandtile_decoder c all_scala_arrays stderr) \<noteq> Inl e"
  proof (intro impI conjI)
    assume exc: "isinstance_Exception (cls e)"
    show "renderEncoded multibandtile_decoder r scala_array stderr = (Inr None, stderr @ [e])"
      if ?render_raises
      using render_body [OF that] exc by (simp add: except_Exception_caught)
    show "compositeEncoded multibandtile_decoder c all_scala_arrays stderr = (Inr None, stderr @ [e])"
      if ?composite_raises
      using composite_body [OF that] exc by (simp add: except_Exception_caught)
    show "fst (renderEncoded multibandtile_decoder r scala_array stderr) \<noteq> Inl e"
      using exc except_Exception_propagates unfolding renderEncoded_def by blast
    show "fst (compositeEncoded multibandtile_decoder c all_scala_arrays stderr) \<noteq> Inl e"
      using exc except_Exception_propagates unfolding compositeEncoded_def by blast
  qed
  have not_caught: "\<not> isinstance_Exception (cls e) \<longrightarrow>
      (?render_raises \<longrightarrow>
         renderEncoded multibandtile_decoder r scala_array stderr = (Inl e, stderr))
    \<and> (?composite_raises \<longrightarrow>
         compositeEncoded multibandtile_decoder c all_scala_arrays stderr = (Inl e, stderr))"
  proof (intro impI conjI)
    assume base: "\<not> isinstance_Exception (cls e)"
    show "renderEncoded multibandtile_decoder r scala_array stderr = (Inl e, stderr)"
      if ?render_raises
      using render_body [OF that] base by (simp add: except_Exception_not_caught)
    show "compositeEncoded multibandtile_decoder c all_scala_arrays stderr = (Inl e, stderr)"
      if ?composite_raises
      using composite_body [OF that] base by (simp add: except_Exception_not_caught)
  qed
  from caught not_caught renderEncoded_result compositeEncoded_result
  show ?thesis by blast
qed

theorem callback_exceptions_caught_witness:
  "renderEncoded ex_decoder \<lparr> render_function = failing_callback \<rparr> ''tile'' [] =
     (Inr None, [Exn (UserException ''RenderFailed'') []])
   \<and> compositeEncoded ex_decoder \<lparr> composite_function = failing_callback \<rparr> [''tile'', ''tile''] [] =
     (Inr None, [Exn (UserException ''RenderFailed'') []])
   \<and> renderEncoded ex_decoder \<lparr> render_function = abort_callback \<rparr> ''tile'' [] =
     (Inl (Exn (UserBaseException ''Abort'') []), [])
   \<and> compositeEncoded ex_decoder \<lparr> composite_function = abort_callback \<rparr> [''tile'', ''tile''] [] =
     (Inl (Exn (UserBaseException ''Abort'') []), [])"
proof -
  have exc: "isinstance_Exception (cls (Exn (UserException ''RenderFailed'') []))" by simp
  have base: "\<not> isinstance_Exception (cls (Exn (UserBaseException ''Abort'') []))" by simp
  have one: "ex_decoder ''tile'' = Inr ex_tile"
    by (simp add: ex_decoder_def)
  have all: "decode_all ex_decoder [''tile'', ''tile''] = Inr [cells ex_tile, cells ex_tile]"
    by (simp add: ex_decoder_def bind_exn_def)
  have cb: "failing_callback (Cells (cells ex_tile)) = Inl (Exn (UserException ''RenderFailed'') [])"
    "failing_callback (CellsList [cells ex_tile, cells ex_tile]) = Inl (Exn (UserException ''RenderFailed'') [])"
    by (simp_all add: failing_callback_def)
  have ab: "abort_callback (Cells (cells ex_tile)) = Inl (Exn (UserBaseException ''Abort'') [])"
    "abort_callback (CellsList [cells ex_tile, cells ex_tile]) = Inl (Exn (UserBaseException ''Abort'') [])"
    by (simp_all add: abort_callback_def)
  from callback_exceptions_caught [of "Exn (UserException ''RenderFailed'') []" ex_decoder "''tile''"
          "\<lparr> render_function = failing_callback \<rparr>" "[]"
          "[''tile'', ''tile'']" "\<lparr> composite_function = failing_callback \<rparr>"]
       callback_exceptions_caught [of "Exn (UserBaseException ''Abort'') []" ex_decoder "''tile''"
          "\<lparr> render_function = abort_callback \<rparr>" "[]"
          "[''tile'', ''tile'']" "\<lparr> composite_function = abort_callback \<rparr>"]
       exc base one all cb ab
  show ?thesis by auto
qed

text \<open>
  C7, as stated, fails: a callback that raises \<open>SystemExit\<close>, which is no subclass of
  \<open>Exception\<close>, is not caught by \<^verbatim>\<open>except Exception\<close>. The exception leaves both
  methods and nothing is printed.
\<close>

theorem callback_SystemExit_propagates:
  "renderEncoded ex_decoder \<lparr> render_function = exit_callback \<rparr> ''tile'' [] =
     (Inl (Exn SystemExit []), [])
   \<and> compositeEncoded ex_decoder \<lparr> composite_function = exit_callback \<rparr> [''tile'', ''tile''] [] =
       (Inl (Exn SystemExit []), [])"
  by (simp add: renderEncoded_def compositeEncoded_def except_Exception_def bind_exn_def
      ex_decoder_def exit_callback_def)

end
